theory Spec2Isabelle
  imports Complex_Main "HOL-Library.Multiset"
begin

section \<open>Workflows of the monorepo: data model\<close>

text \<open>
  The three workflows (\<open>security_scan_workflow.go\<close>, \<open>payment_workflow.go\<close> and the
  order workflow) are orchestration code: every activity and child workflow is an
  external call whose outcome the durable-execution substrate delivers. A workflow is
  embedded as a function of its request and of the outcomes delivered to it; it returns
  its Go result pair \<open>(*Result, error)\<close> as a sum (\<open>Inl\<close> the error) together with the
  list of calls it issued, in program order.
\<close>

subsection \<open>Go base types\<close>

text \<open>\<open>time.Time\<close> and \<open>time.Duration\<close> as integers; the zero value is \<open>0\<close>.\<close>

type_synonym Time = int
type_synonym Duration = int

text \<open>
  \<open>float64\<close>: the finite values are taken as the reals they denote, next to the three
  special values; the type also holds the reals no \<open>float64\<close> denotes, and nothing here
  computes a new value. \<open>f64_gt\<close> is Go's \<open>>\<close> on \<open>float64\<close>: every comparison with NaN
  is false.
\<close>

datatype float64 = NaN | NegInf | Finite real | PosInf

fun f64_gt :: "float64 \<Rightarrow> float64 \<Rightarrow> bool" where
  "f64_gt NaN _ = False"
| "f64_gt _ NaN = False"
| "f64_gt NegInf _ = False"
| "f64_gt (Finite x) NegInf = True"
| "f64_gt (Finite x) (Finite y) = (y < x)"
| "f64_gt (Finite x) PosInf = False"
| "f64_gt PosInf PosInf = False"
| "f64_gt PosInf _ = True"

text \<open>
  A decimal constant of the source is converted to the nearest \<open>float64\<close>. The threshold
  \<open>0.8\<close> of \<open>PaymentWorkflow\<close> is 3602879701896397 / 2^52, a little above the decimal
  number 0.8; the threshold \<open>0.75\<close> of \<open>PaymentWorkflowV2\<close> is 3 / 4 exactly. The scores
  \<open>0.15\<close> (what the \<open>CheckFraud\<close> activity returns) and \<open>0.95\<close> (the score of the test
  \<open>TestPaymentWorkflow_FraudDetected\<close>) are 5404319552844595 / 2^55 and
  4278419646001971 / 2^52.
\<close>

definition float64_0_8 :: float64 where
  "float64_0_8 = Finite (3602879701896397 / 4503599627370496)"

definition float64_0_15 :: float64 where
  "float64_0_15 = Finite (5404319552844595 / 36028797018963968)"

definition float64_0_95 :: float64 where
  "float64_0_95 = Finite (4278419646001971 / 4503599627370496)"

text \<open>
  A Go \<open>error\<close> delivered by a failed activity or child workflow: its kind (the error
  type name the retry policy's \<open>NonRetryableErrorTypes\<close> refers to) and the text
  \<open>err.Error()\<close> returns.
\<close>

datatype error = Error (errKind: string) (errMessage: string)

subsection \<open>Security scan records (\<open>security_scan_workflow.go\<close>, activities)\<close>

record SecurityScanRequest =
  RepositoryURL :: string
  Branch :: string
  CommitSHA :: string
  ScanTypes :: "string list"

record Vulnerability =
  ID :: string
  Severity :: string
  Title :: string
  Description :: string
  FilePath :: string
  LineNumber :: int
  Remediation :: string

record SecurityScanResult =
  ScanID :: string
  Status :: string
  Vulnerabilities :: "Vulnerability list"
  CompletedAt :: Time
  ReportURL :: string

record AgentContext =
  AgentID :: string
  SessionID :: string
  Permissions :: "string list"

record ScanTypeResult =
  ScanType :: string
  Vulnerabilities :: "Vulnerability list"
  Duration :: Duration

record ReportResult =
  ReportID :: string
  URL :: string

record NotificationRequest =
  Type :: string
  Count :: int
  ScanID :: string
  AgentID :: string

subsection \<open>Payment and order records (\<open>payment_workflow.go\<close>, order workflow, activities)\<close>

record PaymentRequest =
  OrderID :: string
  CustomerID :: string
  Amount :: float64
  Currency :: string

record PaymentResult =
  TransactionID :: string
  Status :: string
  ProcessedAt :: Time
  ErrorMessage :: string

record FraudCheckResult =
  RiskScore :: float64
  Flags :: "string list"
  CheckedAt :: Time

record ChargeResult =
  TransactionID :: string
  Amount :: float64
  Currency :: string
  ChargedAt :: Time

record OrderItem =
  BookID :: string
  Title :: string
  Quantity :: int
  Price :: float64

record OrderRequest =
  OrderID :: string
  CustomerID :: string
  Items :: "OrderItem list"
  TotalAmount :: float64

record OrderResult =
  OrderID :: string
  Status :: string
  PaymentID :: string
  ShippingLabel :: string
  CompletedAt :: Time

record InventoryResult =
  Available :: bool
  ReservedAt :: Time
  ReservationID :: string

record ShippingResult =
  TrackingNumber :: string
  Carrier :: string
  EstimatedDate :: Time

subsection \<open>Calls a workflow issues\<close>

text \<open>
  The argument of an activity or child workflow, and the calls themselves:
  \<open>workflow.ExecuteActivity\<close> with the activity's name, \<open>workflow.ExecuteChildWorkflow\<close>
  with the child's workflow id and name, and a selector callback run by
  \<open>selector.Select\<close> for the named future.
\<close>

datatype arg =
  ScanArg SecurityScanRequest
| VulnsArg "Vulnerability list"
| NotifyArg NotificationRequest
| PaymentArg PaymentRequest
| ItemsArg "OrderItem list"
| StringArg string

datatype event =
  ExecuteActivity string arg
| ExecuteChildWorkflow string string arg
| SelectorFired string

fun activityName :: "event \<Rightarrow> string" where
  "activityName (ExecuteActivity n _) = n"
| "activityName (ExecuteChildWorkflow _ n _) = n"
| "activityName (SelectorFired n) = n"

definition executed :: "string \<Rightarrow> event list \<Rightarrow> bool" where
  "executed n tr = (\<exists>a. ExecuteActivity n a \<in> set tr)"

section \<open>Security scan workflow\<close>

subsection \<open>Helpers of \<open>security_scan_workflow.go\<close>\<close>

fun hasPermission :: "string list \<Rightarrow> string \<Rightarrow> bool" where
  "hasPermission [] required = False"
| "hasPermission (p # permissions) required =
     (if p = required \<or> p = ''security:*'' then True
      else hasPermission permissions required)"

fun countBySeverity :: "Vulnerability list \<Rightarrow> string \<Rightarrow> int" where
  "countBySeverity [] severity = 0"
| "countBySeverity (v # vulns) severity =
     (if Severity v = severity then 1 + countBySeverity vulns severity
      else countBySeverity vulns severity)"

text \<open>The two early-return loops of \<open>determineStatus\<close>.\<close>

fun anySeverity :: "string \<Rightarrow> Vulnerability list \<Rightarrow> bool" where
  "anySeverity s [] = False"
| "anySeverity s (v # vulns) = (if Severity v = s then True else anySeverity s vulns)"

definition determineStatus :: "Vulnerability list \<Rightarrow> string" where
  "determineStatus vulns =
     (if anySeverity ''critical'' vulns then ''FAILED_CRITICAL''
      else if anySeverity ''high'' vulns then ''FAILED_HIGH''
      else if length vulns > 0 then ''PASSED_WITH_WARNINGS''
      else ''PASSED'')"

subsection \<open>The permission check of the agent layer (TypeScript, \<open>context.ts\<close>)\<close>

record AgentContextTS =
  agentId :: string
  sessionId :: string
  permissions :: "string list"
  createdAt :: Time
  expiresAt :: Time

text \<open>\<open>permission.split(':')[0]\<close>: the text before the first colon.\<close>

definition category :: "string \<Rightarrow> string" where
  "category permission = takeWhile (\<lambda>c. c \<noteq> CHR '':'') permission"

definition contextHasPermission :: "AgentContextTS \<Rightarrow> string \<Rightarrow> bool" where
  "contextHasPermission context permission =
     (if CHR '':'' \<in> set permission \<and> (category permission @ '':*'') \<in> set (permissions context)
      then True
      else permission \<in> set (permissions context))"

subsection \<open>Fan-out, join and the workflow\<close>

text \<open>
  \<open>futures\<close> is the Go map from scan-type label to the future of the activity started
  for it. A future is identified by its handle, the number of scan activities started
  before it. The switch has no default case: any other entry of \<open>ScanTypes\<close> leaves
  the state as it is. A repeated label starts the activity again and overwrites the
  map entry.
\<close>

record dispatch_state =
  futures :: "string \<rightharpoonup> nat"
  nextHandle :: nat
  started :: "event list"

definition startScan :: "string \<Rightarrow> string \<Rightarrow> SecurityScanRequest \<Rightarrow> dispatch_state \<Rightarrow> dispatch_state" where
  "startScan label activity request st =
     \<lparr> futures = (futures st)(label \<mapsto> nextHandle st),
       nextHandle = Suc (nextHandle st),
       started = started st @ [ExecuteActivity activity (ScanArg request)] \<rparr>"

definition dispatchScan :: "SecurityScanRequest \<Rightarrow> dispatch_state \<Rightarrow> string \<Rightarrow> dispatch_state" where
  "dispatchScan request st scanType =
     (if scanType = ''sast'' then startScan ''sast'' ''RunSASTScan'' request st
      else if scanType = ''dast'' then startScan ''dast'' ''RunDASTScan'' request st
      else if scanType = ''dependency'' then startScan ''dependency'' ''RunDependencyScan'' request st
      else if scanType = ''secrets'' then startScan ''secrets'' ''RunSecretsScan'' request st
      else st)"

definition noFutures :: dispatch_state where
  "noFutures = \<lparr> futures = Map.empty, nextHandle = 0, started = [] \<rparr>"

definition dispatchScans :: "SecurityScanRequest \<Rightarrow> dispatch_state" where
  "dispatchScans request = foldl (dispatchScan request) noFutures (ScanTypes request)"

text \<open>
  What the substrate delivers to one run of the workflow: the outcome of every scan
  future (by handle), the order in which \<open>range futures\<close> visits the keys of the map,
  the outcome of the report activity and the value of \<open>workflow.Now\<close>.
  Go leaves the iteration order of a map unspecified; \<open>rangeOrder\<close> makes the order
  taken explicit, and \<open>validRange\<close> says that it visits every key exactly once.
\<close>

record scan_env =
  scanOutcome :: "nat \<Rightarrow> error + ScanTypeResult"
  rangeOrder :: "string list"
  reportOutcome :: "error + ReportResult"
  scanNow :: Time

definition validRange :: "(string \<rightharpoonup> nat) \<Rightarrow> string list \<Rightarrow> bool" where
  "validRange fs order = (distinct order \<and> set order = dom fs)"

text \<open>The collecting loop: a failed scan is logged and skipped (\<open>continue\<close>).\<close>

fun collectResults ::
  "(nat \<Rightarrow> error + ScanTypeResult) \<Rightarrow> (string \<rightharpoonup> nat) \<Rightarrow> string list \<Rightarrow>
   Vulnerability list \<Rightarrow> Vulnerability list" where
  "collectResults outcome fs [] allVulnerabilities = allVulnerabilities"
| "collectResults outcome fs (scanType # rest) allVulnerabilities =
     (case fs scanType of
        None \<Rightarrow> collectResults outcome fs rest allVulnerabilities
      | Some future \<Rightarrow>
          (case outcome future of
             Inl err \<Rightarrow> collectResults outcome fs rest allVulnerabilities
           | Inr scanResult \<Rightarrow>
               collectResults outcome fs rest
                 (allVulnerabilities @ ScanTypeResult.Vulnerabilities scanResult)))"

definition zeroReportResult :: ReportResult where
  "zeroReportResult = \<lparr> ReportID = '''', URL = '''' \<rparr>"

definition SecurityScanWorkflow ::
  "scan_env \<Rightarrow> SecurityScanRequest \<Rightarrow> AgentContext \<Rightarrow> (error + SecurityScanResult) \<times> event list" where
  "SecurityScanWorkflow env request agentCtx =
     (if \<not> hasPermission (Permissions agentCtx) ''security:scan:execute'' then
        (Inr \<lparr> SecurityScanResult.ScanID = '''', SecurityScanResult.Status = ''PERMISSION_DENIED'',
                SecurityScanResult.Vulnerabilities = [], SecurityScanResult.CompletedAt = 0,
                SecurityScanResult.ReportURL = '''' \<rparr>, [])
      else
        let st = dispatchScans request;
            allVulnerabilities = collectResults (scanOutcome env) (futures st) (rangeOrder env) [];
            reportResult = (case reportOutcome env of Inl err \<Rightarrow> zeroReportResult | Inr r \<Rightarrow> r);
            report = [ExecuteActivity ''GenerateSecurityReport'' (VulnsArg allVulnerabilities)];
            criticalCount = countBySeverity allVulnerabilities ''critical'';
            notify =
              (if criticalCount > 0 then
                 [ExecuteActivity ''NotifyComplianceTeam''
                    (NotifyArg \<lparr> NotificationRequest.Type = ''CRITICAL_VULNERABILITIES'',
                                 NotificationRequest.Count = criticalCount,
                                 NotificationRequest.ScanID = ReportID reportResult,
                                 NotificationRequest.AgentID = AgentContext.AgentID agentCtx \<rparr>)]
               else [])
        in (Inr \<lparr> SecurityScanResult.ScanID = ReportID reportResult,
                   SecurityScanResult.Status = determineStatus allVulnerabilities,
                   SecurityScanResult.Vulnerabilities = allVulnerabilities,
                   SecurityScanResult.CompletedAt = scanNow env,
                   SecurityScanResult.ReportURL = URL reportResult \<rparr>,
            started st @ report @ notify))"

subsection \<open>Scan-type labels and example data\<close>

text \<open>The labels the switch of the fan-out loop has a case for.\<close>

definition recognised :: "string \<Rightarrow> bool" where
  "recognised scanType = (scanType \<in> set [''sast'', ''dast'', ''dependency'', ''secrets''])"

text \<open>
  Example data: \<open>criticalVuln\<close> is the vulnerability of the workflow's test
  \<open>TestSecurityScanWorkflow_CriticalVulnerabilities\<close>, \<open>lodashVuln\<close> the one the
  \<open>RunDependencyScan\<close> activity returns.
\<close>

definition criticalVuln :: Vulnerability where
  "criticalVuln =
     \<lparr> ID = ''CVE-2024-99999'', Severity = ''critical'',
       Vulnerability.Title = ''Remote Code Execution in core library'', Description = '''',
       FilePath = ''go.mod'', LineNumber = 0, Remediation = '''' \<rparr>"

definition lodashVuln :: Vulnerability where
  "lodashVuln =
     \<lparr> ID = ''CVE-2023-12345'', Severity = ''medium'',
       Vulnerability.Title = ''Prototype Pollution in lodash'',
       Description = ''Versions before 4.17.21 are vulnerable'',
       FilePath = ''package.json'', LineNumber = 45,
       Remediation = ''Upgrade lodash to >= 4.17.21'' \<rparr>"

definition exampleRequest :: "string list \<Rightarrow> SecurityScanRequest" where
  "exampleRequest types =
     \<lparr> RepositoryURL = ''https://github.com/example/repo'', Branch = ''main'',
       CommitSHA = ''abc123'', ScanTypes = types \<rparr>"

definition exampleAgent :: "string list \<Rightarrow> AgentContext" where
  "exampleAgent perms =
     \<lparr> AgentContext.AgentID = ''agent-001'', SessionID = ''session-xyz'', Permissions = perms \<rparr>"

text \<open>
  An environment for the examples: the first scan future delivers \<open>criticalVuln\<close>, the
  second \<open>lodashVuln\<close>, any later one fails; the report succeeds.
\<close>

definition exampleOutcome :: "nat \<Rightarrow> error + ScanTypeResult" where
  "exampleOutcome h =
     (if h = 0 then
        Inr \<lparr> ScanType = ''sast'', ScanTypeResult.Vulnerabilities = [criticalVuln], Duration = 5 \<rparr>
      else if h = 1 then
        Inr \<lparr> ScanType = ''dependency'', ScanTypeResult.Vulnerabilities = [lodashVuln], Duration = 2 \<rparr>
      else Inl (Error ''TimeoutError'' ''activity timed out''))"

definition exampleEnv :: "string list \<Rightarrow> scan_env" where
  "exampleEnv order =
     \<lparr> scanOutcome = exampleOutcome, rangeOrder = order,
       reportOutcome = Inr \<lparr> ReportID = ''SEC-456'',
                              URL = ''https://security.example.com/reports/SEC-456'' \<rparr>,
       scanNow = 1700000000 \<rparr>"

section \<open>Payment workflows (\<open>payment_workflow.go\<close>)\<close>

subsection \<open>Activity options\<close>

record RetryPolicy =
  InitialInterval :: Duration
  BackoffCoefficient :: real
  MaximumInterval :: Duration
  MaximumAttempts :: int
  NonRetryableErrorTypes :: "string list"

record ActivityOptions =
  StartToCloseTimeout :: Duration
  HeartbeatTimeout :: Duration
  RetryPolicy :: RetryPolicy

definition Second :: Duration where
  "Second = 1000000000"

definition Minute :: Duration where
  "Minute = 60 * Second"

text \<open>The options \<open>PaymentWorkflow\<close> attaches to its activities.\<close>

definition activityOptions :: ActivityOptions where
  "activityOptions =
     \<lparr> StartToCloseTimeout = Minute * 2,
       HeartbeatTimeout = Second * 30,
       RetryPolicy =
         \<lparr> InitialInterval = Second * 2,
           BackoffCoefficient = 2,
           MaximumInterval = Second * 30,
           MaximumAttempts = 5,
           NonRetryableErrorTypes = [''FraudDetectedError'', ''InsufficientFundsError''] \<rparr> \<rparr>"

text \<open>The options \<open>PaymentWorkflowV2\<close> attaches to its activities.\<close>

definition activityOptionsV2 :: ActivityOptions where
  "activityOptionsV2 =
     \<lparr> StartToCloseTimeout = Minute * 3,
       HeartbeatTimeout = Second * 45,
       RetryPolicy =
         \<lparr> InitialInterval = Second,
           BackoffCoefficient = 3 / 2,
           MaximumInterval = Second * 15,
           MaximumAttempts = 3,
           NonRetryableErrorTypes =
             [''FraudDetectedError'', ''InsufficientFundsError'', ''InvalidCardError''] \<rparr> \<rparr>"

subsection \<open>\<open>PaymentWorkflow\<close> (v1)\<close>

text \<open>
  What one run of \<open>PaymentWorkflow\<close> receives: the final outcome of \<open>CheckFraud\<close> and of
  \<open>ChargePaymentMethod\<close> (what \<open>Get\<close> returns once the substrate has applied the retry
  policy), the value of \<open>workflow.Now\<close>, and \<open>riskText\<close>, the text
  \<open>fmt.Sprintf("Risk score %.2f exceeds threshold", score)\<close> yields.
  \<open>sendPaymentConfirmation\<close> is the outcome of the confirmation activity (\<open>None\<close> for a
  nil error): the workflow starts it and never calls \<open>Get\<close> on its future. The
  comparison \<open>fraudResult.RiskScore > 0.8\<close> is with the \<open>float64\<close> constant.
\<close>

record payment_env =
  checkFraud :: "error + FraudCheckResult"
  chargePaymentMethod :: "error + ChargeResult"
  sendPaymentConfirmation :: "error option"
  paymentNow :: Time
  riskText :: "float64 \<Rightarrow> string"

definition PaymentWorkflow ::
  "payment_env \<Rightarrow> PaymentRequest \<Rightarrow> (error + PaymentResult) \<times> event list" where
  "PaymentWorkflow env request =
     (let fraud = [ExecuteActivity ''CheckFraud'' (PaymentArg request)] in
      case checkFraud env of
        Inl err \<Rightarrow>
          (Inr \<lparr> PaymentResult.TransactionID = '''', PaymentResult.Status = ''FRAUD_CHECK_FAILED'',
                  PaymentResult.ProcessedAt = 0, PaymentResult.ErrorMessage = errMessage err \<rparr>,
           fraud)
      | Inr fraudResult \<Rightarrow>
          if f64_gt (RiskScore fraudResult) float64_0_8 then
            (Inr \<lparr> PaymentResult.TransactionID = '''', PaymentResult.Status = ''FRAUD_SUSPECTED'',
                    PaymentResult.ProcessedAt = 0,
                    PaymentResult.ErrorMessage = riskText env (RiskScore fraudResult) \<rparr>,
             fraud)
          else
            (let charge = [ExecuteActivity ''ChargePaymentMethod'' (PaymentArg request)] in
             case chargePaymentMethod env of
               Inl err \<Rightarrow>
                 (Inr \<lparr> PaymentResult.TransactionID = '''', PaymentResult.Status = ''CHARGE_FAILED'',
                         PaymentResult.ProcessedAt = 0, PaymentResult.ErrorMessage = errMessage err \<rparr>,
                  fraud @ charge)
             | Inr chargeResult \<Rightarrow>
                 (Inr \<lparr> PaymentResult.TransactionID = ChargeResult.TransactionID chargeResult,
                         PaymentResult.Status = ''APPROVED'',
                         PaymentResult.ProcessedAt = paymentNow env,
                         PaymentResult.ErrorMessage = '''' \<rparr>,
                  fraud @ charge @
                  [ExecuteActivity ''SendPaymentConfirmation''
                     (StringArg (ChargeResult.TransactionID chargeResult))])))"

subsection \<open>\<open>PaymentWorkflowV2\<close>\<close>

text \<open>
  The two variables the selector callbacks write, with their Go zero values. A callback
  calls \<open>f.Get\<close> and drops its error: on a failed activity the variable keeps its value.
\<close>

record v2_vars =
  fraudResult :: FraudCheckResult
  cardValid :: bool

definition zeroVars :: v2_vars where
  "zeroVars = \<lparr> fraudResult = \<lparr> RiskScore = Finite 0, Flags = [], CheckedAt = 0 \<rparr>,
                cardValid = False \<rparr>"

text \<open>
  What one run of \<open>PaymentWorkflowV2\<close> receives. \<open>fraudFirst\<close> says which of the two
  futures \<open>selector.Select\<close> finds ready first.
\<close>

record payment_v2_env =
  checkFraudV2 :: "error + FraudCheckResult"
  validateCard :: "error + bool"
  fraudFirst :: bool
  chargePaymentMethodV2 :: "error + ChargeResult"
  paymentNowV2 :: Time

definition fraudCallback :: "payment_v2_env \<Rightarrow> v2_vars \<Rightarrow> v2_vars" where
  "fraudCallback env vars =
     (case checkFraudV2 env of Inl err \<Rightarrow> vars | Inr r \<Rightarrow> vars\<lparr>fraudResult := r\<rparr>)"

definition cardCallback :: "payment_v2_env \<Rightarrow> v2_vars \<Rightarrow> v2_vars" where
  "cardCallback env vars =
     (case validateCard env of Inl err \<Rightarrow> vars | Inr b \<Rightarrow> vars\<lparr>cardValid := b\<rparr>)"

text \<open>One \<open>selector.Select\<close>: the callback registered for the future that is ready runs.\<close>

definition selectStep :: "payment_v2_env \<Rightarrow> v2_vars \<times> event list \<Rightarrow> string \<Rightarrow> v2_vars \<times> event list" where
  "selectStep env st ready =
     (if ready = ''CheckFraudV2'' then (fraudCallback env (fst st), snd st @ [SelectorFired ready])
      else (cardCallback env (fst st), snd st @ [SelectorFired ready]))"

definition selectOrder :: "payment_v2_env \<Rightarrow> string list" where
  "selectOrder env =
     (if fraudFirst env then [''CheckFraudV2'', ''ValidateCard'']
      else [''ValidateCard'', ''CheckFraudV2''])"

definition PaymentWorkflowV2 ::
  "payment_v2_env \<Rightarrow> PaymentRequest \<Rightarrow> (error + PaymentResult) \<times> event list" where
  "PaymentWorkflowV2 env request =
     (let fanout = [ExecuteActivity ''CheckFraudV2'' (PaymentArg request),
                    ExecuteActivity ''ValidateCard'' (StringArg (PaymentRequest.CustomerID request))];
          joined = foldl (selectStep env) (zeroVars, fanout) (selectOrder env);
          vars = fst joined;
          calls = snd joined
      in
        if \<not> cardValid vars \<or> f64_gt (RiskScore (fraudResult vars)) (Finite (75 / 100)) then
          (Inr \<lparr> PaymentResult.TransactionID = '''', PaymentResult.Status = ''DECLINED'',
                  PaymentResult.ProcessedAt = 0, PaymentResult.ErrorMessage = '''' \<rparr>,
           calls)
        else
          (let charge = [ExecuteActivity ''ChargePaymentMethodV2'' (PaymentArg request)] in
           case chargePaymentMethodV2 env of
             Inl err \<Rightarrow> (Inl err, calls @ charge)
           | Inr chargeResult \<Rightarrow>
               (Inr \<lparr> PaymentResult.TransactionID = ChargeResult.TransactionID chargeResult,
                       PaymentResult.Status = ''APPROVED'',
                       PaymentResult.ProcessedAt = paymentNowV2 env,
                       PaymentResult.ErrorMessage = '''' \<rparr>,
                calls @ charge)))"

section \<open>Order workflow\<close>

text \<open>
  What one run of \<open>OrderWorkflow\<close> receives: the outcomes of \<open>ValidateInventory\<close>, of the
  child \<open>PaymentWorkflow\<close>, of \<open>GenerateShippingLabel\<close> and of the compensation
  \<open>RefundPayment\<close> (\<open>None\<close> for a nil error), and the value of \<open>workflow.Now\<close>.
  The workflow awaits the refund and assigns its error to the blank identifier.
\<close>

record order_env =
  validateInventory :: "error + InventoryResult"
  paymentWorkflow :: "error + PaymentResult"
  generateShippingLabel :: "error + ShippingResult"
  refundPayment :: "error option"
  orderNow :: Time

definition OrderWorkflow ::
  "order_env \<Rightarrow> OrderRequest \<Rightarrow> (error + OrderResult) \<times> event list" where
  "OrderWorkflow env request =
     (let inventory = [ExecuteActivity ''ValidateInventory'' (ItemsArg (Items request))] in
      case validateInventory env of
        Inl err \<Rightarrow> (Inl err, inventory)
      | Inr inventoryResult \<Rightarrow>
          if \<not> Available inventoryResult then
            (Inr \<lparr> OrderResult.OrderID = OrderRequest.OrderID request,
                    OrderResult.Status = ''INVENTORY_UNAVAILABLE'',
                    OrderResult.PaymentID = '''', OrderResult.ShippingLabel = '''',
                    OrderResult.CompletedAt = 0 \<rparr>,
             inventory)
          else
            (let paymentRequest =
                   \<lparr> PaymentRequest.OrderID = OrderRequest.OrderID request,
                     PaymentRequest.CustomerID = OrderRequest.CustomerID request,
                     PaymentRequest.Amount = TotalAmount request,
                     PaymentRequest.Currency = '''' \<rparr>;
                 child = [ExecuteChildWorkflow (''payment-'' @ OrderRequest.OrderID request)
                            ''PaymentWorkflow'' (PaymentArg paymentRequest)]
             in
               case paymentWorkflow env of
                 Inl err \<Rightarrow> (Inl err, inventory @ child)
               | Inr paymentResult \<Rightarrow>
                   if PaymentResult.Status paymentResult \<noteq> ''APPROVED'' then
                     (Inr \<lparr> OrderResult.OrderID = OrderRequest.OrderID request,
                             OrderResult.Status = ''PAYMENT_DECLINED'',
                             OrderResult.PaymentID = PaymentResult.TransactionID paymentResult,
                             OrderResult.ShippingLabel = '''',
                             OrderResult.CompletedAt = 0 \<rparr>,
                      inventory @ child)
                   else
                     (let shipping = [ExecuteActivity ''GenerateShippingLabel''
                                        (StringArg (OrderRequest.OrderID request))] in
                      case generateShippingLabel env of
                        Inl err \<Rightarrow>
                          (Inl err,
                           inventory @ child @ shipping @
                           [ExecuteActivity ''RefundPayment''
                              (StringArg (PaymentResult.TransactionID paymentResult))])
                      | Inr shippingResult \<Rightarrow>
                          (Inr \<lparr> OrderResult.OrderID = OrderRequest.OrderID request,
                                  OrderResult.Status = ''COMPLETED'',
                                  OrderResult.PaymentID = PaymentResult.TransactionID paymentResult,
                                  OrderResult.ShippingLabel = TrackingNumber shippingResult,
                                  OrderResult.CompletedAt = orderNow env \<rparr>,
                           inventory @ child @ shipping))))"

text \<open>The child payment workflow was started.\<close>

definition childStarted :: "event list \<Rightarrow> bool" where
  "childStarted tr = (\<exists>wid a. ExecuteChildWorkflow wid ''PaymentWorkflow'' a \<in> set tr)"

subsection \<open>Example data of the payment and order tests\<close>

definition examplePayment :: PaymentRequest where
  "examplePayment =
     \<lparr> PaymentRequest.OrderID = ''order-123'', PaymentRequest.CustomerID = ''customer-456'',
       PaymentRequest.Amount = Finite 50, PaymentRequest.Currency = '''' \<rparr>"

definition exampleOrder :: OrderRequest where
  "exampleOrder =
     \<lparr> OrderRequest.OrderID = ''order-123'', OrderRequest.CustomerID = ''customer-456'',
       Items = [], TotalAmount = Finite (9999 / 100) \<rparr>"

definition exampleCharge :: ChargeResult where
  "exampleCharge =
     \<lparr> ChargeResult.TransactionID = ''txn-abc'', ChargeResult.Amount = Finite 50,
       ChargeResult.Currency = '''', ChargedAt = 0 \<rparr>"

definition exampleApproved :: PaymentResult where
  "exampleApproved =
     \<lparr> PaymentResult.TransactionID = ''txn-789'', PaymentResult.Status = ''APPROVED'',
       PaymentResult.ProcessedAt = 0, PaymentResult.ErrorMessage = '''' \<rparr>"

definition gatewayTimeout :: error where
  "gatewayTimeout = Error ''TimeoutError'' ''payment gateway timed out''"

definition carrierDown :: error where
  "carrierDown = Error ''CarrierUnavailable'' ''shipping carrier unavailable''"

definition refundRejected :: error where
  "refundRejected = Error ''RefundRejected'' ''refund rejected by gateway''"

definition confirmationLost :: error where
  "confirmationLost = Error ''NotificationError'' ''confirmation could not be sent''"

text \<open>
  A payment run: the fraud check delivers the given score, the charge and the
  confirmation the given outcomes.
\<close>

definition examplePaymentEnv ::
  "float64 \<Rightarrow> error + ChargeResult \<Rightarrow> error option \<Rightarrow> payment_env" where
  "examplePaymentEnv score charge confirmation =
     \<lparr> checkFraud = Inr \<lparr> RiskScore = score, Flags = [], CheckedAt = 0 \<rparr>,
       chargePaymentMethod = charge,
       sendPaymentConfirmation = confirmation,
       paymentNow = 1700000000,
       riskText = (\<lambda>x. ''Risk score exceeds threshold'') \<rparr>"

definition examplePaymentV2Env :: "real \<Rightarrow> bool \<Rightarrow> bool \<Rightarrow> payment_v2_env" where
  "examplePaymentV2Env score valid first =
     \<lparr> checkFraudV2 = Inr \<lparr> RiskScore = Finite score, Flags = [], CheckedAt = 0 \<rparr>,
       validateCard = Inr valid,
       fraudFirst = first,
       chargePaymentMethodV2 = Inr exampleCharge,
       paymentNowV2 = 1700000000 \<rparr>"

text \<open>
  An order run: inventory is available or not, the child payment approved, the shipping
  label and the refund with the given outcomes.
\<close>

definition exampleOrderEnv ::
  "bool \<Rightarrow> error + ShippingResult \<Rightarrow> error option \<Rightarrow> order_env" where
  "exampleOrderEnv available shipping refund =
     \<lparr> validateInventory = Inr \<lparr> Available = available, ReservedAt = 0, ReservationID = '''' \<rparr>,
       paymentWorkflow = Inr exampleApproved,
       generateShippingLabel = shipping,
       refundPayment = refund,
       orderNow = 1700000000 \<rparr>"

section \<open>Properties of the security scan workflow\<close>

lemma anySeverity_iff: "anySeverity s vulns \<longleftrightarrow> (\<exists>v \<in> set vulns. Severity v = s)"
  by (induction vulns) auto

lemma hasPermission_iff:
  "hasPermission ps required \<longleftrightarrow> required \<in> set ps \<or> ''security:*'' \<in> set ps"
  by (induction ps) auto

subsection \<open>Status derivation\<close>

lemma determineStatus_set:
  "determineStatus vulns =
     (if (\<exists>v \<in> set vulns. Severity v = ''critical'') then ''FAILED_CRITICAL''
      else if (\<exists>v \<in> set vulns. Severity v = ''high'') then ''FAILED_HIGH''
      else if vulns \<noteq> [] then ''PASSED_WITH_WARNINGS''
      else ''PASSED'')"
  by (simp add: determineStatus_def anySeverity_iff)

lemma determineStatus_mset:
  assumes "mset ws = mset vulns"
  shows "determineStatus ws = determineStatus vulns"
proof -
  from assms have sets: "set ws = set vulns"
    by (rule mset_eq_setD)
  from assms have "ws = [] \<longleftrightarrow> vulns = []"
    by (metis mset_zero_iff)
  with sets show ?thesis
    by (simp add: determineStatus_set)
qed

text \<open>
  Claim C4. For every list of vulnerabilities the status is derived in fixed priority
  order: \<open>FAILED_CRITICAL\<close> if some vulnerability has severity critical, else
  \<open>FAILED_HIGH\<close> if some has severity high, else \<open>PASSED_WITH_WARNINGS\<close> if the list is
  not empty, else \<open>PASSED\<close>; and every permutation of the list has the same status.
\<close>

theorem determineStatus_priority:
  "determineStatus vulns =
     (if (\<exists>v \<in> set vulns. Severity v = ''critical'') then ''FAILED_CRITICAL''
      else if (\<exists>v \<in> set vulns. Severity v = ''high'') then ''FAILED_HIGH''
      else if vulns \<noteq> [] then ''PASSED_WITH_WARNINGS''
      else ''PASSED'')
   \<and> (\<forall>ws. mset ws = mset vulns \<longrightarrow> determineStatus ws = determineStatus vulns)"
  using determineStatus_set determineStatus_mset by blast

theorem determineStatus_priority_witness:
  "mset [criticalVuln, lodashVuln] = mset [lodashVuln, criticalVuln]
   \<and> determineStatus [lodashVuln, criticalVuln] = ''FAILED_CRITICAL''
   \<and> determineStatus [criticalVuln, lodashVuln] = determineStatus [lodashVuln, criticalVuln]"
proof -
  have perm: "mset [criticalVuln, lodashVuln] = mset [lodashVuln, criticalVuln]"
    by (simp add: add.commute)
  have "determineStatus [lodashVuln, criticalVuln] = ''FAILED_CRITICAL''"
    using determineStatus_priority [of "[lodashVuln, criticalVuln]"]
    by (simp add: criticalVuln_def lodashVuln_def)
  moreover have "determineStatus [criticalVuln, lodashVuln] = determineStatus [lodashVuln, criticalVuln]"
    using determineStatus_priority [of "[lodashVuln, criticalVuln]"] perm by blast
  ultimately show ?thesis
    using perm by blast
qed

subsection \<open>Permission gate\<close>

text \<open>
  Claim C7. When the caller's permission set contains neither
  \<open>security:scan:execute\<close> nor \<open>security:*\<close>, the workflow returns the soft status
  \<open>PERMISSION_DENIED\<close> (every other field zero) with no error, and issues no call at
  all: no scan, report or notification activity.
\<close>

theorem permission_denied_no_activities:
  assumes "''security:scan:execute'' \<notin> set (Permissions agentCtx)"
    and "''security:*'' \<notin> set (Permissions agentCtx)"
  shows "SecurityScanWorkflow env request agentCtx =
           (Inr \<lparr> SecurityScanResult.ScanID = '''',
                   SecurityScanResult.Status = ''PERMISSION_DENIED'',
                   SecurityScanResult.Vulnerabilities = [],
                   SecurityScanResult.CompletedAt = 0,
                   SecurityScanResult.ReportURL = '''' \<rparr>, [])"
  using assms by (simp add: SecurityScanWorkflow_def hasPermission_iff)

theorem permission_denied_no_activities_witness:
  "''security:scan:execute'' \<notin> set [''read:only'']
   \<and> ''security:*'' \<notin> set [''read:only'']
   \<and> SecurityScanWorkflow (exampleEnv [''sast'']) (exampleRequest [''sast''])
        (exampleAgent [''read:only'']) =
          (Inr \<lparr> SecurityScanResult.ScanID = '''',
                  SecurityScanResult.Status = ''PERMISSION_DENIED'',
                  SecurityScanResult.Vulnerabilities = [],
                  SecurityScanResult.CompletedAt = 0,
                  SecurityScanResult.ReportURL = '''' \<rparr>, [])"
proof -
  have a: "''security:scan:execute'' \<notin> set (Permissions (exampleAgent [''read:only'']))"
    by (simp add: exampleAgent_def)
  have b: "''security:*'' \<notin> set (Permissions (exampleAgent [''read:only'']))"
    by (simp add: exampleAgent_def)
  show ?thesis
    using permission_denied_no_activities [OF a b, of "exampleEnv [''sast'']" "exampleRequest [''sast'']"]
    by simp
qed

subsection \<open>Wildcard permissions\<close>

text \<open>
  Claim C1. The claim says that a namespace wildcard grants only tokens of its own
  category and that no token is a global wildcard. \<open>hasPermission\<close> of the Go workflow
  does not look at the required token once it meets \<open>security:*\<close>: the set
  \<open>["security:*"]\<close> grants \<open>workflow:trigger\<close>, a token outside the \<open>security:\<close>
  category. The agent layer's \<open>contextHasPermission\<close> refuses the same request.
\<close>

theorem hasPermission_wildcard_any_token:
  "hasPermission [''security:*''] ''workflow:trigger''
   \<and> \<not> contextHasPermission
        \<lparr> agentId = ''agent-001'', sessionId = ''session-xyz'', permissions = [''security:*''],
          createdAt = 0, expiresAt = 1800000 \<rparr> ''workflow:trigger''"
  by (simp add: contextHasPermission_def category_def)

lemma category_prefix:
  assumes "CHR '':'' \<in> set permission"
  shows "\<exists>rest. permission = category permission @ '':'' @ rest"
proof -
  let ?P = "\<lambda>c. c \<noteq> CHR '':''"
  from assms have ne: "dropWhile ?P permission \<noteq> []"
    by (simp add: dropWhile_eq_Nil_conv)
  then have "\<not> ?P (hd (dropWhile ?P permission))"
    by (rule hd_dropWhile)
  then have "hd (dropWhile ?P permission) = CHR '':''"
    by simp
  with ne obtain rest where d: "dropWhile ?P permission = CHR '':'' # rest"
    by (cases "dropWhile ?P permission") auto
  have "takeWhile ?P permission @ dropWhile ?P permission = permission"
    by (rule takeWhile_dropWhile_id)
  then have "permission = category permission @ '':'' @ rest"
    unfolding d category_def by simp
  then show ?thesis ..
qed

lemma contextHasPermission_iff:
  "contextHasPermission context permission \<longleftrightarrow>
     permission \<in> set (permissions context)
     \<or> (\<exists>rest. permission = category permission @ '':'' @ rest
          \<and> category permission @ '':*'' \<in> set (permissions context))"
proof -
  have colon: "CHR '':'' \<in> set permission \<longleftrightarrow> (\<exists>rest. permission = category permission @ '':'' @ rest)"
  proof
    assume "CHR '':'' \<in> set permission"
    then show "\<exists>rest. permission = category permission @ '':'' @ rest"
      by (rule category_prefix)
  next
    assume "\<exists>rest. permission = category permission @ '':'' @ rest"
    then obtain rest where eq: "permission = category permission @ '':'' @ rest" ..
    have "CHR '':'' \<in> set (category permission @ '':'' @ rest)" by simp
    with eq show "CHR '':'' \<in> set permission" by simp
  qed
  show ?thesis
    unfolding contextHasPermission_def using colon by auto
qed

subsection \<open>Unrecognised scan types\<close>

lemma dispatchScan_unrecognised: "\<not> recognised s \<Longrightarrow> dispatchScan r st s = st"
  by (simp add: dispatchScan_def recognised_def)

lemma dispatchScan_recognised_sim:
  assumes "futures a = futures b" and "nextHandle a = nextHandle b"
    and "map activityName (started a) = map activityName (started b)"
  shows "futures (dispatchScan r a s) = futures (dispatchScan r' b s)
       \<and> nextHandle (dispatchScan r a s) = nextHandle (dispatchScan r' b s)
       \<and> map activityName (started (dispatchScan r a s)) = map activityName (started (dispatchScan r' b s))"
  using assms by (simp add: dispatchScan_def startScan_def)

lemma foldl_dispatchScan_filter:
  assumes "futures a = futures b" and "nextHandle a = nextHandle b"
    and "map activityName (started a) = map activityName (started b)"
  shows "futures (foldl (dispatchScan r) a xs) = futures (foldl (dispatchScan r') b (filter recognised xs))
       \<and> nextHandle (foldl (dispatchScan r) a xs) = nextHandle (foldl (dispatchScan r') b (filter recognised xs))
       \<and> map activityName (started (foldl (dispatchScan r) a xs))
           = map activityName (started (foldl (dispatchScan r') b (filter recognised xs)))"
  using assms
proof (induction xs arbitrary: a b)
  case Nil
  then show ?case by simp
next
  case (Cons s xs)
  show ?case
  proof (cases "recognised s")
    case True
    have step: "futures (dispatchScan r a s) = futures (dispatchScan r' b s)
       \<and> nextHandle (dispatchScan r a s) = nextHandle (dispatchScan r' b s)
       \<and> map activityName (started (dispatchScan r a s)) = map activityName (started (dispatchScan r' b s))"
      using Cons.prems by (rule dispatchScan_recognised_sim)
    then show ?thesis
      using True Cons.IH [of "dispatchScan r a s" "dispatchScan r' b s"] by simp
  next
    case False
    then show ?thesis
      using Cons.IH [of a b] Cons.prems by (simp add: dispatchScan_unrecognised)
  qed
qed

lemma dispatchScans_filter:
  "futures (dispatchScans request) = futures (dispatchScans (request\<lparr>ScanTypes := filter recognised (ScanTypes request)\<rparr>))
   \<and> map activityName (started (dispatchScans request))
       = map activityName (started (dispatchScans (request\<lparr>ScanTypes := filter recognised (ScanTypes request)\<rparr>)))"
  using foldl_dispatchScan_filter [of noFutures noFutures request "ScanTypes request"
      "request\<lparr>ScanTypes := filter recognised (ScanTypes request)\<rparr>"]
  by (simp add: dispatchScans_def)

lemma foldl_dispatchScan_length:
  "length (started (foldl (dispatchScan r) st xs)) = length (started st) + length (filter recognised xs)"
proof (induction xs arbitrary: st)
  case Nil
  then show ?case by simp
next
  case (Cons s xs)
  show ?case
  proof (cases "recognised s")
    case True
    then have "length (started (dispatchScan r st s)) = Suc (length (started st))"
      by (auto simp: dispatchScan_def startScan_def recognised_def)
    with True Cons.IH [of "dispatchScan r st s"] show ?thesis by simp
  next
    case False
    with Cons.IH [of st] show ?thesis by (simp add: dispatchScan_unrecognised)
  qed
qed

text \<open>
  Claim C10. Entries of \<open>ScanTypes\<close> other than \<open>sast\<close>, \<open>dast\<close>, \<open>dependency\<close> and
  \<open>secrets\<close> are ignored: the workflow's result (value and error) is the result for
  the request with those entries removed, the same activities are started in the same
  order, the workflow returns a result and no error, and exactly one scan activity is
  started per recognised entry.
\<close>

theorem unrecognised_scan_types_ignored:
  "fst (SecurityScanWorkflow env request agentCtx)
     = fst (SecurityScanWorkflow env (request\<lparr>ScanTypes := filter recognised (ScanTypes request)\<rparr>) agentCtx)
   \<and> map activityName (snd (SecurityScanWorkflow env request agentCtx))
     = map activityName (snd (SecurityScanWorkflow env
         (request\<lparr>ScanTypes := filter recognised (ScanTypes request)\<rparr>) agentCtx))
   \<and> (\<exists>result. fst (SecurityScanWorkflow env request agentCtx) = Inr result)
   \<and> length (started (dispatchScans request)) = length (filter recognised (ScanTypes request))"
proof -
  let ?request' = "request\<lparr>ScanTypes := filter recognised (ScanTypes request)\<rparr>"
  have f: "futures (dispatchScans request) = futures (dispatchScans ?request')"
    and n: "map activityName (started (dispatchScans request))
             = map activityName (started (dispatchScans ?request'))"
    using dispatchScans_filter [of request] by simp_all
  have len: "length (started (dispatchScans request)) = length (filter recognised (ScanTypes request))"
    using foldl_dispatchScan_length [of request noFutures "ScanTypes request"]
    by (simp add: dispatchScans_def noFutures_def)
  have r: "fst (SecurityScanWorkflow env request agentCtx) = fst (SecurityScanWorkflow env ?request' agentCtx)"
    unfolding SecurityScanWorkflow_def Let_def using f by simp
  have t: "map activityName (snd (SecurityScanWorkflow env request agentCtx))
      = map activityName (snd (SecurityScanWorkflow env ?request' agentCtx))"
    unfolding SecurityScanWorkflow_def Let_def using f n by simp
  have e: "\<exists>result. fst (SecurityScanWorkflow env request agentCtx) = Inr result"
    unfolding SecurityScanWorkflow_def Let_def by simp
  from r t e len show ?thesis by blast
qed

subsection \<open>The join over the map of futures\<close>

text \<open>
  What does not depend on the order in which \<open>range futures\<close> visits the keys: the
  multiset of the collected vulnerabilities, hence the status and the critical count.
\<close>

lemma collectResults_mset:
  "mset (collectResults outcome fs order acc) =
     mset acc + (\<Sum>k \<in># mset order. mset (collectResults outcome fs [k] []))"
  by (induction order arbitrary: acc) (simp_all split: option.split sum.split)

lemma validRange_mset:
  assumes "validRange fs o1" and "validRange fs o2"
  shows "mset o1 = mset o2"
  using assms by (simp add: validRange_def set_eq_iff_mset_eq_distinct [symmetric])

lemma collectResults_order:
  assumes "validRange fs o1" and "validRange fs o2"
  shows "mset (collectResults outcome fs o1 []) = mset (collectResults outcome fs o2 [])"
  using validRange_mset [OF assms] by (simp add: collectResults_mset)

lemma countBySeverity_mset_count:
  "countBySeverity vulns s = int (size (filter_mset (\<lambda>v. Severity v = s) (mset vulns)))"
  by (induction vulns) simp_all

lemma countBySeverity_mset:
  assumes "mset ws = mset vulns"
  shows "countBySeverity ws s = countBySeverity vulns s"
  using assms by (simp add: countBySeverity_mset_count)

lemma join_multiset_status_order_independent:
  assumes "validRange (futures (dispatchScans request)) o1"
    and "validRange (futures (dispatchScans request)) o2"
  shows "map_sum id
           (\<lambda>r. (mset (SecurityScanResult.Vulnerabilities r), SecurityScanResult.Status r,
                 SecurityScanResult.ScanID r, SecurityScanResult.ReportURL r,
                 SecurityScanResult.CompletedAt r))
           (fst (SecurityScanWorkflow (env\<lparr>rangeOrder := o1\<rparr>) request agentCtx))
       = map_sum id
           (\<lambda>r. (mset (SecurityScanResult.Vulnerabilities r), SecurityScanResult.Status r,
                 SecurityScanResult.ScanID r, SecurityScanResult.ReportURL r,
                 SecurityScanResult.CompletedAt r))
           (fst (SecurityScanWorkflow (env\<lparr>rangeOrder := o2\<rparr>) request agentCtx))"
proof -
  let ?fs = "futures (dispatchScans request)"
  have m: "mset (collectResults (scanOutcome env) ?fs o1 [])
         = mset (collectResults (scanOutcome env) ?fs o2 [])"
    using assms by (rule collectResults_order)
  then have s: "determineStatus (collectResults (scanOutcome env) ?fs o1 [])
              = determineStatus (collectResults (scanOutcome env) ?fs o2 [])"
    by (rule determineStatus_mset)
  show ?thesis
    unfolding SecurityScanWorkflow_def Let_def using m s by simp
qed

text \<open>The two iteration orders of the map built for the scan types \<open>sast\<close>, \<open>dependency\<close>.\<close>

lemma example_futures:
  "futures (dispatchScans (exampleRequest [''sast'', ''dependency'']))
     = [''sast'' \<mapsto> 0, ''dependency'' \<mapsto> Suc 0]"
  by (simp add: dispatchScans_def dispatchScan_def startScan_def noFutures_def exampleRequest_def)

lemma example_range_sast_first:
  "validRange [''sast'' \<mapsto> 0, ''dependency'' \<mapsto> Suc 0] [''sast'', ''dependency'']"
  by (auto simp add: validRange_def)

lemma example_range_dependency_first:
  "validRange [''sast'' \<mapsto> 0, ''dependency'' \<mapsto> Suc 0] [''dependency'', ''sast'']"
  by (auto simp add: validRange_def)

lemma example_join_sast_first:
  "map_sum id SecurityScanResult.Vulnerabilities
     (fst (SecurityScanWorkflow (exampleEnv [''sast'', ''dependency''])
        (exampleRequest [''sast'', ''dependency'']) (exampleAgent [''security:scan:execute''])))
     = Inr [criticalVuln, lodashVuln]"
  by (simp add: SecurityScanWorkflow_def Let_def example_futures exampleEnv_def exampleAgent_def
      exampleOutcome_def)

lemma example_join_dependency_first:
  "map_sum id SecurityScanResult.Vulnerabilities
     (fst (SecurityScanWorkflow (exampleEnv [''dependency'', ''sast''])
        (exampleRequest [''sast'', ''dependency'']) (exampleAgent [''security:scan:execute''])))
     = Inr [lodashVuln, criticalVuln]"
  by (simp add: SecurityScanWorkflow_def Let_def example_futures exampleEnv_def exampleAgent_def
      exampleOutcome_def)

lemma example_report_sast_first:
  "ExecuteActivity ''GenerateSecurityReport'' (VulnsArg [criticalVuln, lodashVuln])
     \<in> set (snd (SecurityScanWorkflow (exampleEnv [''sast'', ''dependency''])
        (exampleRequest [''sast'', ''dependency'']) (exampleAgent [''security:scan:execute''])))"
  by (simp add: SecurityScanWorkflow_def Let_def example_futures exampleEnv_def exampleAgent_def
      exampleOutcome_def)

lemma example_report_dependency_first:
  "ExecuteActivity ''GenerateSecurityReport'' (VulnsArg [lodashVuln, criticalVuln])
     \<in> set (snd (SecurityScanWorkflow (exampleEnv [''dependency'', ''sast''])
        (exampleRequest [''sast'', ''dependency'']) (exampleAgent [''security:scan:execute''])))"
  by (simp add: SecurityScanWorkflow_def Let_def example_futures exampleEnv_def exampleAgent_def
      exampleOutcome_def)

lemma example_vulns_differ: "[criticalVuln, lodashVuln] \<noteq> [lodashVuln, criticalVuln]"
  by (simp add: criticalVuln_def lodashVuln_def)

text \<open>
  Claim C2. The claim says that the order of the aggregated vulnerability list is the
  same in any two executions, whatever order the scan results are collected in. The
  workflow collects them with \<open>range futures\<close> over a Go map, whose iteration order Go
  does not fix. For the request with scan types \<open>sast\<close> and \<open>dependency\<close>, the same
  permissions and the same activity results, the two iteration orders of the two-key
  map give the lists \<open>[criticalVuln, lodashVuln]\<close> and \<open>[lodashVuln, criticalVuln]\<close>:
  two different workflow results, and two different arguments of the report activity.
\<close>

theorem join_order_follows_map_iteration:
  "validRange (futures (dispatchScans (exampleRequest [''sast'', ''dependency''])))
     [''sast'', ''dependency'']
   \<and> validRange (futures (dispatchScans (exampleRequest [''sast'', ''dependency''])))
     [''dependency'', ''sast'']
   \<and> map_sum id SecurityScanResult.Vulnerabilities
       (fst (SecurityScanWorkflow (exampleEnv [''sast'', ''dependency''])
          (exampleRequest [''sast'', ''dependency'']) (exampleAgent [''security:scan:execute''])))
       = Inr [criticalVuln, lodashVuln]
   \<and> map_sum id SecurityScanResult.Vulnerabilities
       (fst (SecurityScanWorkflow (exampleEnv [''dependency'', ''sast''])
          (exampleRequest [''sast'', ''dependency'']) (exampleAgent [''security:scan:execute''])))
       = Inr [lodashVuln, criticalVuln]
   \<and> fst (SecurityScanWorkflow (exampleEnv [''sast'', ''dependency''])
          (exampleRequest [''sast'', ''dependency'']) (exampleAgent [''security:scan:execute'']))
     \<noteq> fst (SecurityScanWorkflow (exampleEnv [''dependency'', ''sast''])
          (exampleRequest [''sast'', ''dependency'']) (exampleAgent [''security:scan:execute'']))
   \<and> ExecuteActivity ''GenerateSecurityReport'' (VulnsArg [criticalVuln, lodashVuln])
       \<in> set (snd (SecurityScanWorkflow (exampleEnv [''sast'', ''dependency''])
          (exampleRequest [''sast'', ''dependency'']) (exampleAgent [''security:scan:execute''])))
   \<and> ExecuteActivity ''GenerateSecurityReport'' (VulnsArg [lodashVuln, criticalVuln])
       \<in> set (snd (SecurityScanWorkflow (exampleEnv [''dependency'', ''sast''])
          (exampleRequest [''sast'', ''dependency'']) (exampleAgent [''security:scan:execute''])))"
proof -
  have "fst (SecurityScanWorkflow (exampleEnv [''sast'', ''dependency''])
          (exampleRequest [''sast'', ''dependency'']) (exampleAgent [''security:scan:execute'']))
     \<noteq> fst (SecurityScanWorkflow (exampleEnv [''dependency'', ''sast''])
          (exampleRequest [''sast'', ''dependency'']) (exampleAgent [''security:scan:execute'']))"
    using example_join_sast_first example_join_dependency_first example_vulns_differ
    by (metis sum.inject(2))
  then show ?thesis
    unfolding example_futures
    using example_range_sast_first example_range_dependency_first
      example_join_sast_first example_join_dependency_first
      example_report_sast_first example_report_dependency_first
    by blast
qed

section \<open>Properties of the payment workflows\<close>

subsection \<open>\<open>PaymentWorkflow\<close> (v1): errors and the fraud threshold\<close>

text \<open>The constant \<open>0.8\<close> of the source lies above the decimal number 0.8.\<close>

lemma float64_0_8_above_decimal: "f64_gt float64_0_8 (Finite (8 / 10))"
  by (simp add: float64_0_8_def)

lemma PaymentWorkflow_returns:
  "\<exists>result. fst (PaymentWorkflow env request) = Inr result"
  by (simp add: PaymentWorkflow_def Let_def split: sum.split)

lemma PaymentWorkflow_fraud_error:
  assumes "checkFraud env = Inl err"
  shows "PaymentWorkflow env request =
           (Inr \<lparr> PaymentResult.TransactionID = '''', PaymentResult.Status = ''FRAUD_CHECK_FAILED'',
                   PaymentResult.ProcessedAt = 0, PaymentResult.ErrorMessage = errMessage err \<rparr>,
            [ExecuteActivity ''CheckFraud'' (PaymentArg request)])"
  using assms by (simp add: PaymentWorkflow_def Let_def)

lemma PaymentWorkflow_charge_error:
  assumes "checkFraud env = Inr fr" and "\<not> f64_gt (RiskScore fr) float64_0_8"
    and "chargePaymentMethod env = Inl err"
  shows "PaymentWorkflow env request =
           (Inr \<lparr> PaymentResult.TransactionID = '''', PaymentResult.Status = ''CHARGE_FAILED'',
                   PaymentResult.ProcessedAt = 0, PaymentResult.ErrorMessage = errMessage err \<rparr>,
            [ExecuteActivity ''CheckFraud'' (PaymentArg request),
             ExecuteActivity ''ChargePaymentMethod'' (PaymentArg request)])"
  using assms by (simp add: PaymentWorkflow_def Let_def)

lemma PaymentWorkflow_approved:
  assumes "checkFraud env = Inr fr" and "\<not> f64_gt (RiskScore fr) float64_0_8"
    and "chargePaymentMethod env = Inr cr"
  shows "PaymentWorkflow (env\<lparr>sendPaymentConfirmation := confirmation\<rparr>) request =
           (Inr \<lparr> PaymentResult.TransactionID = ChargeResult.TransactionID cr,
                   PaymentResult.Status = ''APPROVED'',
                   PaymentResult.ProcessedAt = paymentNow env,
                   PaymentResult.ErrorMessage = '''' \<rparr>,
            [ExecuteActivity ''CheckFraud'' (PaymentArg request),
             ExecuteActivity ''ChargePaymentMethod'' (PaymentArg request),
             ExecuteActivity ''SendPaymentConfirmation''
               (StringArg (ChargeResult.TransactionID cr))])"
  using assms by (simp add: PaymentWorkflow_def Let_def)

text \<open>
  Claim C3, as amended. \<open>PaymentWorkflow\<close> (v1) never returns a workflow error. An
  error of \<open>CheckFraud\<close> ends the workflow with the soft status \<open>FRAUD_CHECK_FAILED\<close>
  after that one call. An error of \<open>ChargePaymentMethod\<close>, of whatever kind, after a
  fraud check whose score is not above \<open>0.8\<close> ends it with the soft status
  \<open>CHARGE_FAILED\<close> after those two calls. Each status carries the error's message.
  After a successful charge the workflow starts \<open>SendPaymentConfirmation\<close> for the
  transaction and returns \<open>APPROVED\<close> whatever the outcome of the confirmation.
\<close>

theorem charge_error_is_soft_status:
  "(\<exists>result. fst (PaymentWorkflow env request) = Inr result)
   \<and> (\<forall>err. checkFraud env = Inl err \<longrightarrow>
         PaymentWorkflow env request =
           (Inr \<lparr> PaymentResult.TransactionID = '''', PaymentResult.Status = ''FRAUD_CHECK_FAILED'',
                   PaymentResult.ProcessedAt = 0, PaymentResult.ErrorMessage = errMessage err \<rparr>,
            [ExecuteActivity ''CheckFraud'' (PaymentArg request)]))
   \<and> (\<forall>fr err. checkFraud env = Inr fr \<and> \<not> f64_gt (RiskScore fr) float64_0_8
         \<and> chargePaymentMethod env = Inl err \<longrightarrow>
         PaymentWorkflow env request =
           (Inr \<lparr> PaymentResult.TransactionID = '''', PaymentResult.Status = ''CHARGE_FAILED'',
                   PaymentResult.ProcessedAt = 0, PaymentResult.ErrorMessage = errMessage err \<rparr>,
            [ExecuteActivity ''CheckFraud'' (PaymentArg request),
             ExecuteActivity ''ChargePaymentMethod'' (PaymentArg request)]))
   \<and> (\<forall>fr cr confirmation. checkFraud env = Inr fr \<and> \<not> f64_gt (RiskScore fr) float64_0_8
         \<and> chargePaymentMethod env = Inr cr \<longrightarrow>
         PaymentWorkflow (env\<lparr>sendPaymentConfirmation := confirmation\<rparr>) request =
           (Inr \<lparr> PaymentResult.TransactionID = ChargeResult.TransactionID cr,
                   PaymentResult.Status = ''APPROVED'',
                   PaymentResult.ProcessedAt = paymentNow env,
                   PaymentResult.ErrorMessage = '''' \<rparr>,
            [ExecuteActivity ''CheckFraud'' (PaymentArg request),
             ExecuteActivity ''ChargePaymentMethod'' (PaymentArg request),
             ExecuteActivity ''SendPaymentConfirmation''
               (StringArg (ChargeResult.TransactionID cr))]))"
  using PaymentWorkflow_returns PaymentWorkflow_fraud_error PaymentWorkflow_charge_error
    PaymentWorkflow_approved
  by blast

lemma example_charge_failure:
  "fst (PaymentWorkflow (examplePaymentEnv float64_0_15 (Inl gatewayTimeout) None) examplePayment) =
     Inr \<lparr> PaymentResult.TransactionID = '''', PaymentResult.Status = ''CHARGE_FAILED'',
            PaymentResult.ProcessedAt = 0,
            PaymentResult.ErrorMessage = ''payment gateway timed out'' \<rparr>"
  by (simp add: PaymentWorkflow_def Let_def examplePaymentEnv_def gatewayTimeout_def
      float64_0_15_def float64_0_8_def)

text \<open>
  Claim C3 as stated fails: the fraud check succeeds with score 0.15, the charge fails
  with a \<open>TimeoutError\<close> (a kind outside the retry policy's non-retryable types), and
  the workflow returns the soft status \<open>CHARGE_FAILED\<close>, not the error.
\<close>

theorem charge_error_is_workflow_error_counterexample:
  "checkFraud (examplePaymentEnv float64_0_15 (Inl gatewayTimeout) None)
     = Inr \<lparr> RiskScore = float64_0_15, Flags = [], CheckedAt = 0 \<rparr>
   \<and> \<not> f64_gt float64_0_15 float64_0_8
   \<and> chargePaymentMethod (examplePaymentEnv float64_0_15 (Inl gatewayTimeout) None)
       = Inl gatewayTimeout
   \<and> errKind gatewayTimeout \<notin> set (NonRetryableErrorTypes (RetryPolicy activityOptions))
   \<and> fst (PaymentWorkflow (examplePaymentEnv float64_0_15 (Inl gatewayTimeout) None) examplePayment)
       \<noteq> Inl gatewayTimeout
   \<and> fst (PaymentWorkflow (examplePaymentEnv float64_0_15 (Inl gatewayTimeout) None) examplePayment) =
       Inr \<lparr> PaymentResult.TransactionID = '''', PaymentResult.Status = ''CHARGE_FAILED'',
              PaymentResult.ProcessedAt = 0,
              PaymentResult.ErrorMessage = ''payment gateway timed out'' \<rparr>"
proof -
  let ?env = "examplePaymentEnv float64_0_15 (Inl gatewayTimeout) None"
  have a: "checkFraud ?env = Inr \<lparr> RiskScore = float64_0_15, Flags = [], CheckedAt = 0 \<rparr>"
    and c: "chargePaymentMethod ?env = Inl gatewayTimeout"
    by (simp_all add: examplePaymentEnv_def)
  have b: "\<not> f64_gt float64_0_15 float64_0_8"
    by (simp add: float64_0_15_def float64_0_8_def)
  have k: "errKind gatewayTimeout \<notin> set (NonRetryableErrorTypes (RetryPolicy activityOptions))"
    by (simp add: gatewayTimeout_def activityOptions_def)
  note r = example_charge_failure
  have n: "fst (PaymentWorkflow ?env examplePayment) \<noteq> Inl gatewayTimeout"
    unfolding r by simp
  from a b c k n r show ?thesis by blast
qed

theorem charge_error_is_soft_status_witness:
  "PaymentWorkflow (examplePaymentEnv float64_0_15 (Inl gatewayTimeout) None) examplePayment =
     (Inr \<lparr> PaymentResult.TransactionID = '''', PaymentResult.Status = ''CHARGE_FAILED'',
             PaymentResult.ProcessedAt = 0,
             PaymentResult.ErrorMessage = errMessage gatewayTimeout \<rparr>,
      [ExecuteActivity ''CheckFraud'' (PaymentArg examplePayment),
       ExecuteActivity ''ChargePaymentMethod'' (PaymentArg examplePayment)])
   \<and> PaymentWorkflow (examplePaymentEnv float64_0_8 (Inr exampleCharge) (Some confirmationLost))
       examplePayment =
     (Inr \<lparr> PaymentResult.TransactionID = ''txn-abc'', PaymentResult.Status = ''APPROVED'',
             PaymentResult.ProcessedAt = 1700000000, PaymentResult.ErrorMessage = '''' \<rparr>,
      [ExecuteActivity ''CheckFraud'' (PaymentArg examplePayment),
       ExecuteActivity ''ChargePaymentMethod'' (PaymentArg examplePayment),
       ExecuteActivity ''SendPaymentConfirmation'' (StringArg ''txn-abc'')])"
proof -
  let ?failed = "examplePaymentEnv float64_0_15 (Inl gatewayTimeout) None"
  let ?paid = "examplePaymentEnv float64_0_8 (Inr exampleCharge) None"
  have a: "checkFraud ?failed = Inr \<lparr> RiskScore = float64_0_15, Flags = [], CheckedAt = 0 \<rparr>"
    and c: "chargePaymentMethod ?failed = Inl gatewayTimeout"
    by (simp_all add: examplePaymentEnv_def)
  have b: "\<not> f64_gt (RiskScore \<lparr> RiskScore = float64_0_15, Flags = [], CheckedAt = 0 \<rparr>) float64_0_8"
    by (simp add: float64_0_15_def float64_0_8_def)
  have a': "checkFraud ?paid = Inr \<lparr> RiskScore = float64_0_8, Flags = [], CheckedAt = 0 \<rparr>"
    and c': "chargePaymentMethod ?paid = Inr exampleCharge"
    and now: "paymentNow ?paid = 1700000000"
    by (simp_all add: examplePaymentEnv_def)
  have b': "\<not> f64_gt (RiskScore \<lparr> RiskScore = float64_0_8, Flags = [], CheckedAt = 0 \<rparr>) float64_0_8"
    by (simp add: float64_0_8_def)
  have u: "?paid\<lparr>sendPaymentConfirmation := Some confirmationLost\<rparr>
             = examplePaymentEnv float64_0_8 (Inr exampleCharge) (Some confirmationLost)"
    by (simp add: examplePaymentEnv_def)
  have t: "ChargeResult.TransactionID exampleCharge = ''txn-abc''"
    by (simp add: exampleCharge_def)
  from charge_error_is_soft_status [of ?failed examplePayment] a b c
  have first: "PaymentWorkflow ?failed examplePayment =
     (Inr \<lparr> PaymentResult.TransactionID = '''', PaymentResult.Status = ''CHARGE_FAILED'',
             PaymentResult.ProcessedAt = 0,
             PaymentResult.ErrorMessage = errMessage gatewayTimeout \<rparr>,
      [ExecuteActivity ''CheckFraud'' (PaymentArg examplePayment),
       ExecuteActivity ''ChargePaymentMethod'' (PaymentArg examplePayment)])"
    by blast
  from charge_error_is_soft_status [of ?paid examplePayment] a' b' c'
  have "PaymentWorkflow (?paid\<lparr>sendPaymentConfirmation := Some confirmationLost\<rparr>) examplePayment =
     (Inr \<lparr> PaymentResult.TransactionID = ChargeResult.TransactionID exampleCharge,
             PaymentResult.Status = ''APPROVED'',
             PaymentResult.ProcessedAt = paymentNow ?paid,
             PaymentResult.ErrorMessage = '''' \<rparr>,
      [ExecuteActivity ''CheckFraud'' (PaymentArg examplePayment),
       ExecuteActivity ''ChargePaymentMethod'' (PaymentArg examplePayment),
       ExecuteActivity ''SendPaymentConfirmation''
         (StringArg (ChargeResult.TransactionID exampleCharge))])"
    by blast
  then have second: "PaymentWorkflow (examplePaymentEnv float64_0_8 (Inr exampleCharge) (Some confirmationLost))
       examplePayment =
     (Inr \<lparr> PaymentResult.TransactionID = ''txn-abc'', PaymentResult.Status = ''APPROVED'',
             PaymentResult.ProcessedAt = 1700000000, PaymentResult.ErrorMessage = '''' \<rparr>,
      [ExecuteActivity ''CheckFraud'' (PaymentArg examplePayment),
       ExecuteActivity ''ChargePaymentMethod'' (PaymentArg examplePayment),
       ExecuteActivity ''SendPaymentConfirmation'' (StringArg ''txn-abc'')])"
    unfolding u t now .
  from first second show ?thesis by blast
qed

lemma PaymentWorkflow_suspected_iff:
  assumes "checkFraud env = Inr fr"
  shows "(\<exists>result. fst (PaymentWorkflow env request) = Inr result
            \<and> PaymentResult.Status result = ''FRAUD_SUSPECTED'')
         \<longleftrightarrow> f64_gt (RiskScore fr) float64_0_8"
  using assms by (simp add: PaymentWorkflow_def Let_def split: sum.split)

lemma PaymentWorkflow_charge_iff:
  assumes "checkFraud env = Inr fr"
  shows "executed ''ChargePaymentMethod'' (snd (PaymentWorkflow env request))
         \<longleftrightarrow> \<not> f64_gt (RiskScore fr) float64_0_8"
  using assms by (simp add: PaymentWorkflow_def Let_def executed_def split: sum.split)

text \<open>
  Claim C6. When the fraud check of \<open>PaymentWorkflow\<close> (v1) succeeds with risk score
  \<open>r\<close>, the workflow ends with the soft status \<open>FRAUD_SUSPECTED\<close> and no error if and
  only if \<open>r > 0.8\<close>; otherwise, and only then, it starts \<open>ChargePaymentMethod\<close>.
  The comparison is Go's on \<open>float64\<close>, with the constant \<open>0.8\<close> of the source: a finite
  score is above it exactly when it exceeds 3602879701896397 / 4503599627370496, and
  a score equal to the constant reaches the charge.
\<close>

theorem fraud_suspected_iff_above_threshold:
  assumes "checkFraud env = Inr fr"
  shows "((\<exists>result. fst (PaymentWorkflow env request) = Inr result
             \<and> PaymentResult.Status result = ''FRAUD_SUSPECTED'')
          \<longleftrightarrow> f64_gt (RiskScore fr) float64_0_8)
       \<and> (executed ''ChargePaymentMethod'' (snd (PaymentWorkflow env request))
          \<longleftrightarrow> \<not> f64_gt (RiskScore fr) float64_0_8)
       \<and> (\<forall>r. RiskScore fr = Finite r \<longrightarrow>
            ((\<exists>result. fst (PaymentWorkflow env request) = Inr result
                \<and> PaymentResult.Status result = ''FRAUD_SUSPECTED'')
             \<longleftrightarrow> 3602879701896397 / 4503599627370496 < r))
       \<and> (RiskScore fr = float64_0_8 \<longrightarrow>
            executed ''ChargePaymentMethod'' (snd (PaymentWorkflow env request)))"
proof -
  note s = PaymentWorkflow_suspected_iff [OF assms, of request]
  note c = PaymentWorkflow_charge_iff [OF assms, of request]
  have fin: "\<forall>r. RiskScore fr = Finite r \<longrightarrow>
            ((\<exists>result. fst (PaymentWorkflow env request) = Inr result
                \<and> PaymentResult.Status result = ''FRAUD_SUSPECTED'')
             \<longleftrightarrow> 3602879701896397 / 4503599627370496 < r)"
    using s by (simp add: float64_0_8_def)
  have edge: "RiskScore fr = float64_0_8 \<longrightarrow>
            executed ''ChargePaymentMethod'' (snd (PaymentWorkflow env request))"
    using c by (simp add: float64_0_8_def)
  from s c fin edge show ?thesis by blast
qed

theorem fraud_suspected_iff_above_threshold_witness:
  "checkFraud (examplePaymentEnv float64_0_95 (Inr exampleCharge) None)
     = Inr \<lparr> RiskScore = float64_0_95, Flags = [], CheckedAt = 0 \<rparr>
   \<and> (\<exists>result. fst (PaymentWorkflow (examplePaymentEnv float64_0_95 (Inr exampleCharge) None)
                      examplePayment) = Inr result
          \<and> PaymentResult.Status result = ''FRAUD_SUSPECTED'')
   \<and> \<not> executed ''ChargePaymentMethod''
         (snd (PaymentWorkflow (examplePaymentEnv float64_0_95 (Inr exampleCharge) None) examplePayment))
   \<and> checkFraud (examplePaymentEnv float64_0_8 (Inr exampleCharge) None)
     = Inr \<lparr> RiskScore = float64_0_8, Flags = [], CheckedAt = 0 \<rparr>
   \<and> executed ''ChargePaymentMethod''
         (snd (PaymentWorkflow (examplePaymentEnv float64_0_8 (Inr exampleCharge) None) examplePayment))"
proof -
  let ?high = "examplePaymentEnv float64_0_95 (Inr exampleCharge) None"
  let ?edge = "examplePaymentEnv float64_0_8 (Inr exampleCharge) None"
  let ?fr = "\<lparr> RiskScore = float64_0_95, Flags = [], CheckedAt = 0 \<rparr>"
  let ?fe = "\<lparr> RiskScore = float64_0_8, Flags = [], CheckedAt = 0 \<rparr>"
  have a: "checkFraud ?high = Inr ?fr" and a': "checkFraud ?edge = Inr ?fe"
    by (simp_all add: examplePaymentEnv_def)
  have b: "f64_gt (RiskScore ?fr) float64_0_8"
    by (simp add: float64_0_95_def float64_0_8_def)
  have b': "RiskScore ?fe = float64_0_8"
    by simp
  from fraud_suspected_iff_above_threshold [OF a, of examplePayment] b
  have high: "(\<exists>result. fst (PaymentWorkflow ?high examplePayment) = Inr result
          \<and> PaymentResult.Status result = ''FRAUD_SUSPECTED'')
      \<and> \<not> executed ''ChargePaymentMethod'' (snd (PaymentWorkflow ?high examplePayment))"
    by blast
  from fraud_suspected_iff_above_threshold [OF a', of examplePayment] b'
  have edge: "executed ''ChargePaymentMethod'' (snd (PaymentWorkflow ?edge examplePayment))"
    by blast
  from a a' high edge show ?thesis by blast
qed

subsection \<open>\<open>PaymentWorkflowV2\<close>: the decision after the join\<close>

lemma selectOrder_set: "set (selectOrder env) = {''CheckFraudV2'', ''ValidateCard''}"
  by (auto simp: selectOrder_def)

lemma v2_join:
  assumes "checkFraudV2 env = Inr fr" and "validateCard env = Inr cv"
  shows "foldl (selectStep env) (zeroVars, calls) (selectOrder env) =
           (\<lparr> fraudResult = fr, cardValid = cv \<rparr>, calls @ map SelectorFired (selectOrder env))"
  using assms
  by (simp add: selectOrder_def selectStep_def fraudCallback_def cardCallback_def zeroVars_def)

lemma PaymentWorkflowV2_declined_iff:
  assumes "checkFraudV2 env = Inr fr" and "validateCard env = Inr cv"
  shows "(\<exists>result. fst (PaymentWorkflowV2 env request) = Inr result
            \<and> PaymentResult.Status result = ''DECLINED'')
         \<longleftrightarrow> (\<not> cv \<or> f64_gt (RiskScore fr) (Finite (75 / 100)))"
  unfolding PaymentWorkflowV2_def Let_def v2_join [OF assms]
  by (simp split: sum.split)

lemma PaymentWorkflowV2_result:
  assumes "checkFraudV2 env = Inr fr" and "validateCard env = Inr cv"
  shows "fst (PaymentWorkflowV2 env request) =
     (if \<not> cv \<or> f64_gt (RiskScore fr) (Finite (75 / 100)) then
        Inr \<lparr> PaymentResult.TransactionID = '''', PaymentResult.Status = ''DECLINED'',
               PaymentResult.ProcessedAt = 0, PaymentResult.ErrorMessage = '''' \<rparr>
      else
        (case chargePaymentMethodV2 env of
           Inl err \<Rightarrow> Inl err
         | Inr chargeResult \<Rightarrow>
             Inr \<lparr> PaymentResult.TransactionID = ChargeResult.TransactionID chargeResult,
                    PaymentResult.Status = ''APPROVED'',
                    PaymentResult.ProcessedAt = paymentNowV2 env,
                    PaymentResult.ErrorMessage = '''' \<rparr>))"
  unfolding PaymentWorkflowV2_def Let_def v2_join [OF assms]
  by (simp split: sum.split)

lemma PaymentWorkflowV2_calls:
  assumes "checkFraudV2 env = Inr fr" and "validateCard env = Inr cv"
  shows "\<exists>rest. snd (PaymentWorkflowV2 env request) =
           [ExecuteActivity ''CheckFraudV2'' (PaymentArg request),
            ExecuteActivity ''ValidateCard'' (StringArg (PaymentRequest.CustomerID request))]
           @ map SelectorFired (selectOrder env) @ rest
         \<and> (rest = [] \<or> rest = [ExecuteActivity ''ChargePaymentMethodV2'' (PaymentArg request)])"
  unfolding PaymentWorkflowV2_def Let_def v2_join [OF assms]
  by (simp split: sum.split)

text \<open>
  Claim C5. When both parallel results of \<open>PaymentWorkflowV2\<close> are delivered (risk
  score \<open>r\<close>, card validity \<open>cv\<close>), the workflow ends with status \<open>DECLINED\<close> and no
  error if and only if the card is invalid or \<open>r > 0.75\<close>; the result is the same
  whichever of the two futures is ready first; and both selector callbacks have run
  before anything else happens: the calls are the two fan-out activities, the two
  selections, and then at most the charge.
\<close>

theorem declined_iff_invalid_or_risky:
  assumes "checkFraudV2 env = Inr fr" and "validateCard env = Inr cv"
  shows "((\<exists>result. fst (PaymentWorkflowV2 env request) = Inr result
             \<and> PaymentResult.Status result = ''DECLINED'')
          \<longleftrightarrow> (\<not> cv \<or> f64_gt (RiskScore fr) (Finite (75 / 100))))
       \<and> (\<forall>r. RiskScore fr = Finite r \<longrightarrow>
            ((\<exists>result. fst (PaymentWorkflowV2 env request) = Inr result
                \<and> PaymentResult.Status result = ''DECLINED'')
             \<longleftrightarrow> (\<not> cv \<or> 75 / 100 < r)))
       \<and> fst (PaymentWorkflowV2 (env\<lparr>fraudFirst := True\<rparr>) request)
           = fst (PaymentWorkflowV2 (env\<lparr>fraudFirst := False\<rparr>) request)
       \<and> set (selectOrder env) = {''CheckFraudV2'', ''ValidateCard''}
       \<and> (\<exists>rest. snd (PaymentWorkflowV2 env request) =
              [ExecuteActivity ''CheckFraudV2'' (PaymentArg request),
               ExecuteActivity ''ValidateCard'' (StringArg (PaymentRequest.CustomerID request))]
              @ map SelectorFired (selectOrder env) @ rest
            \<and> (rest = [] \<or> rest = [ExecuteActivity ''ChargePaymentMethodV2'' (PaymentArg request)]))"
proof -
  note d = PaymentWorkflowV2_declined_iff [OF assms, of request]
  have fin: "\<forall>r. RiskScore fr = Finite r \<longrightarrow>
            ((\<exists>result. fst (PaymentWorkflowV2 env request) = Inr result
                \<and> PaymentResult.Status result = ''DECLINED'')
             \<longleftrightarrow> (\<not> cv \<or> 75 / 100 < r))"
    using d by simp
  have t: "checkFraudV2 (env\<lparr>fraudFirst := True\<rparr>) = Inr fr"
      "validateCard (env\<lparr>fraudFirst := True\<rparr>) = Inr cv"
    and f: "checkFraudV2 (env\<lparr>fraudFirst := False\<rparr>) = Inr fr"
      "validateCard (env\<lparr>fraudFirst := False\<rparr>) = Inr cv"
    using assms by simp_all
  have ord: "fst (PaymentWorkflowV2 (env\<lparr>fraudFirst := True\<rparr>) request)
           = fst (PaymentWorkflowV2 (env\<lparr>fraudFirst := False\<rparr>) request)"
    unfolding PaymentWorkflowV2_result [OF t] PaymentWorkflowV2_result [OF f]
    by (simp split: sum.split)
  note c = PaymentWorkflowV2_calls [OF assms, of request]
  from d fin ord selectOrder_set [of env] c show ?thesis by blast
qed

theorem declined_iff_invalid_or_risky_witness:
  "checkFraudV2 (examplePaymentV2Env (8 / 10) True False)
     = Inr \<lparr> RiskScore = Finite (8 / 10), Flags = [], CheckedAt = 0 \<rparr>
   \<and> validateCard (examplePaymentV2Env (8 / 10) True False) = Inr True
   \<and> (\<exists>result. fst (PaymentWorkflowV2 (examplePaymentV2Env (8 / 10) True False) examplePayment)
          = Inr result \<and> PaymentResult.Status result = ''DECLINED'')"
proof -
  let ?env = "examplePaymentV2Env (8 / 10) True False"
  let ?fr = "\<lparr> RiskScore = Finite (8 / 10), Flags = [], CheckedAt = 0 \<rparr>"
  have a: "checkFraudV2 ?env = Inr ?fr" and b: "validateCard ?env = Inr True"
    by (simp_all add: examplePaymentV2Env_def)
  have c: "f64_gt (RiskScore ?fr) (Finite (75 / 100))"
    by simp
  from declined_iff_invalid_or_risky [OF a b, of examplePayment] c a b
  show ?thesis by blast
qed

section \<open>Properties of the order workflow\<close>


lemma refund_iff_outcomes:
  "executed ''RefundPayment'' (snd (OrderWorkflow env request)) \<longleftrightarrow>
     (\<exists>ir. validateInventory env = Inr ir \<and> Available ir)
     \<and> (\<exists>p. paymentWorkflow env = Inr p \<and> PaymentResult.Status p = ''APPROVED'')
     \<and> (\<exists>e. generateShippingLabel env = Inl e)"
  by (simp add: OrderWorkflow_def Let_def executed_def split: sum.split)

lemma childStarted_iff:
  "childStarted (snd (OrderWorkflow env request)) \<longleftrightarrow>
     (\<exists>ir. validateInventory env = Inr ir \<and> Available ir)"
  by (simp add: OrderWorkflow_def Let_def childStarted_def split: sum.split)

lemma shipping_executed_iff:
  "executed ''GenerateShippingLabel'' (snd (OrderWorkflow env request)) \<longleftrightarrow>
     (\<exists>ir. validateInventory env = Inr ir \<and> Available ir)
     \<and> (\<exists>p. paymentWorkflow env = Inr p \<and> PaymentResult.Status p = ''APPROVED'')"
  by (simp add: OrderWorkflow_def Let_def executed_def split: sum.split)

lemma soft_status_no_refund:
  assumes "fst (OrderWorkflow env request) = Inr result"
  shows "\<not> executed ''RefundPayment'' (snd (OrderWorkflow env request))"
  using assms
  by (auto simp add: OrderWorkflow_def Let_def executed_def split: sum.splits if_splits)

text \<open>
  Claim C8. \<open>OrderWorkflow\<close> starts the compensation \<open>RefundPayment\<close> if and only if
  the child payment workflow was started and returned status \<open>APPROVED\<close> and
  \<open>GenerateShippingLabel\<close> was then started and failed. It is never started when the
  workflow ends with \<open>INVENTORY_UNAVAILABLE\<close> or \<open>PAYMENT_DECLINED\<close>.
\<close>

theorem refund_iff_paid_and_shipping_failed:
  "(executed ''RefundPayment'' (snd (OrderWorkflow env request)) \<longleftrightarrow>
      childStarted (snd (OrderWorkflow env request))
      \<and> (\<exists>p. paymentWorkflow env = Inr p \<and> PaymentResult.Status p = ''APPROVED'')
      \<and> executed ''GenerateShippingLabel'' (snd (OrderWorkflow env request))
      \<and> (\<exists>e. generateShippingLabel env = Inl e))
   \<and> (\<forall>result. fst (OrderWorkflow env request) = Inr result
         \<and> (OrderResult.Status result = ''INVENTORY_UNAVAILABLE''
            \<or> OrderResult.Status result = ''PAYMENT_DECLINED'')
         \<longrightarrow> \<not> executed ''RefundPayment'' (snd (OrderWorkflow env request)))"
  unfolding refund_iff_outcomes childStarted_iff shipping_executed_iff
  using soft_status_no_refund [of env request, unfolded refund_iff_outcomes]
  by blast

theorem refund_iff_paid_and_shipping_failed_witness:
  "executed ''RefundPayment'' (snd (OrderWorkflow (exampleOrderEnv True (Inl carrierDown) None) exampleOrder))
   \<and> fst (OrderWorkflow (exampleOrderEnv False (Inl carrierDown) None) exampleOrder)
       = Inr \<lparr> OrderResult.OrderID = ''order-123'', OrderResult.Status = ''INVENTORY_UNAVAILABLE'',
                OrderResult.PaymentID = '''', OrderResult.ShippingLabel = '''',
                OrderResult.CompletedAt = 0 \<rparr>
   \<and> \<not> executed ''RefundPayment'' (snd (OrderWorkflow (exampleOrderEnv False (Inl carrierDown) None) exampleOrder))"
proof -
  let ?yes = "exampleOrderEnv True (Inl carrierDown) None"
  let ?no = "exampleOrderEnv False (Inl carrierDown) None"
  have c: "childStarted (snd (OrderWorkflow ?yes exampleOrder))"
    and s: "executed ''GenerateShippingLabel'' (snd (OrderWorkflow ?yes exampleOrder))"
    by (simp_all add: OrderWorkflow_def Let_def exampleOrderEnv_def exampleApproved_def
        childStarted_def executed_def)
  have p: "\<exists>p. paymentWorkflow ?yes = Inr p \<and> PaymentResult.Status p = ''APPROVED''"
    and e: "\<exists>e. generateShippingLabel ?yes = Inl e"
    by (simp_all add: exampleOrderEnv_def exampleApproved_def)
  have r: "fst (OrderWorkflow ?no exampleOrder)
       = Inr \<lparr> OrderResult.OrderID = ''order-123'', OrderResult.Status = ''INVENTORY_UNAVAILABLE'',
                OrderResult.PaymentID = '''', OrderResult.ShippingLabel = '''',
                OrderResult.CompletedAt = 0 \<rparr>"
    by (simp add: OrderWorkflow_def Let_def exampleOrderEnv_def exampleOrder_def)
  have yes: "executed ''RefundPayment'' (snd (OrderWorkflow ?yes exampleOrder))"
    using refund_iff_paid_and_shipping_failed [of ?yes exampleOrder] c s p e by blast
  have no: "\<not> executed ''RefundPayment'' (snd (OrderWorkflow ?no exampleOrder))"
  proof -
    let ?res = "\<lparr> OrderResult.OrderID = ''order-123'', OrderResult.Status = ''INVENTORY_UNAVAILABLE'',
                OrderResult.PaymentID = '''', OrderResult.ShippingLabel = '''',
                OrderResult.CompletedAt = 0 \<rparr>"
    have "fst (OrderWorkflow ?no exampleOrder) = Inr ?res
          \<and> (OrderResult.Status ?res = ''INVENTORY_UNAVAILABLE''
             \<or> OrderResult.Status ?res = ''PAYMENT_DECLINED'')"
      using r by simp
    with refund_iff_paid_and_shipping_failed [of ?no exampleOrder] show ?thesis
      by blast
  qed
  from yes r no show ?thesis by blast
qed

text \<open>
  Claim C9. When inventory is available, the child payment is \<open>APPROVED\<close> and
  \<open>GenerateShippingLabel\<close> fails with \<open>err\<close>, the workflow returns \<open>err\<close> as its error
  (no result, so no soft status) whatever the outcome \<open>refund\<close> of the compensation,
  and the compensation is the last call, for the child's transaction id.
\<close>

theorem shipping_error_not_masked:
  assumes "validateInventory env = Inr ir" and "Available ir"
    and "paymentWorkflow env = Inr p" and "PaymentResult.Status p = ''APPROVED''"
    and "generateShippingLabel env = Inl err"
  shows "fst (OrderWorkflow (env\<lparr>refundPayment := refund\<rparr>) request) = Inl err
       \<and> snd (OrderWorkflow (env\<lparr>refundPayment := refund\<rparr>) request) =
           [ExecuteActivity ''ValidateInventory'' (ItemsArg (Items request)),
            ExecuteChildWorkflow (''payment-'' @ OrderRequest.OrderID request) ''PaymentWorkflow''
              (PaymentArg \<lparr> PaymentRequest.OrderID = OrderRequest.OrderID request,
                            PaymentRequest.CustomerID = OrderRequest.CustomerID request,
                            PaymentRequest.Amount = TotalAmount request,
                            PaymentRequest.Currency = '''' \<rparr>),
            ExecuteActivity ''GenerateShippingLabel'' (StringArg (OrderRequest.OrderID request)),
            ExecuteActivity ''RefundPayment'' (StringArg (PaymentResult.TransactionID p))]"
  using assms by (simp add: OrderWorkflow_def Let_def)

theorem shipping_error_not_masked_witness:
  "fst (OrderWorkflow (exampleOrderEnv True (Inl carrierDown) (Some refundRejected)) exampleOrder)
     = Inl carrierDown
   \<and> fst (OrderWorkflow (exampleOrderEnv True (Inl carrierDown) None) exampleOrder)
     = Inl carrierDown"
proof -
  let ?env = "exampleOrderEnv True (Inl carrierDown) None"
  let ?inv = "\<lparr> Available = True, ReservedAt = 0, ReservationID = '''' \<rparr>"
  have a: "validateInventory ?env = Inr ?inv" and b: "Available ?inv"
    and c: "paymentWorkflow ?env = Inr exampleApproved"
    and d: "PaymentResult.Status exampleApproved = ''APPROVED''"
    and e: "generateShippingLabel ?env = Inl carrierDown"
    by (simp_all add: exampleOrderEnv_def exampleApproved_def)
  have u: "?env\<lparr>refundPayment := Some refundRejected\<rparr>
             = exampleOrderEnv True (Inl carrierDown) (Some refundRejected)"
    and v: "?env\<lparr>refundPayment := None\<rparr> = ?env"
    by (simp_all add: exampleOrderEnv_def)
  from shipping_error_not_masked [OF a b c d e, of "Some refundRejected" exampleOrder]
    shipping_error_not_masked [OF a b c d e, of None exampleOrder]
  show ?thesis unfolding u v by blast
qed

end
